theory Spec2Isabelle
  imports Complex_Main "HOL-Library.AList" "HOL-Library.Sublist"
begin

section \<open>Python values, exceptions and the built-in conversions\<close>

text \<open>
  The server (\<^verbatim>\<open>src/server.py\<close>) has two functions: \<^verbatim>\<open>parse_val\<close>, which coerces one
  loosely typed argument with the built-ins \<^verbatim>\<open>str\<close>, \<^verbatim>\<open>int\<close> and \<^verbatim>\<open>float\<close>, and
  \<^verbatim>\<open>news_search\<close>, which coerces its five arguments, builds the query parameters and
  performs one HTTP GET inside a \<^verbatim>\<open>try\<close> block.

  A Python float is either a finite double, given by its exact rational value, negative
  zero, an infinity or NaN. An argument is one of the scalars the tool boundary can hand
  over. Strings are lists of characters with code points below 256.
\<close>

datatype pyfloat = Finite rat | NegZero | PosInf | NegInf | NaN

datatype pyval = PNone | PBool bool | PInt int | PFloat pyfloat | PStr string

text \<open>
  Exception classes. Only the position of a class in the hierarchy matters to the code:
  \<^verbatim>\<open>except (ValueError, TypeError)\<close> in \<^verbatim>\<open>parse_val\<close> and \<^verbatim>\<open>except Exception\<close> in
  \<^verbatim>\<open>news_search\<close>. \<open>OtherException n\<close> is any other class below \<^verbatim>\<open>Exception\<close> (the client
  library's errors, \<^verbatim>\<open>asyncio.TimeoutError\<close>); \<open>NonException n\<close> is a class below
  \<^verbatim>\<open>BaseException\<close> only (\<^verbatim>\<open>asyncio.CancelledError\<close>, \<^verbatim>\<open>KeyboardInterrupt\<close>).
\<close>

datatype exc_class =
  ValueError | TypeError | OverflowError | AttributeError
  | OtherException string | NonException string

fun is_Exception :: "exc_class \<Rightarrow> bool" where
  "is_Exception (NonException n) = False"
| "is_Exception c = True"

text \<open>An exception object of the request path: its class and what \<^verbatim>\<open>str(e)\<close> gives.\<close>

datatype py_exc = Exc (exc_cls: exc_class) (exc_str: string)

text \<open>
  What the model takes from the Python runtime without computing it: the text \<^verbatim>\<open>str\<close>
  gives for a float, the float a string parses to (\<open>None\<close> where \<^verbatim>\<open>float\<close> raises
  \<^verbatim>\<open>ValueError\<close>), and \<^verbatim>\<open>sys.get_int_max_str_digits()\<close> (4300 by default since
  Python 3.11, 0 for no limit).
\<close>

record py_runtime =
  float_repr :: "pyfloat \<Rightarrow> string"
  float_of_str :: "string \<Rightarrow> pyfloat option"
  int_max_str_digits :: nat

subsection \<open>\<^verbatim>\<open>int(value)\<close>\<close>

text \<open>
  For a string, \<^verbatim>\<open>int\<close> strips white space at both ends, reads an optional sign and then
  decimal digits, where single underscores may stand between digits. Everything else is a
  \<^verbatim>\<open>ValueError\<close>, as is a digit count above the limit.
\<close>

definition is_space :: "char \<Rightarrow> bool" where
  "is_space c = (of_char c \<in> {9, 10, 11, 12, 13, 32, 133, 160 :: nat})"

definition is_digit :: "char \<Rightarrow> bool" where
  "is_digit c = (48 \<le> (of_char c :: nat) \<and> (of_char c :: nat) \<le> 57)"

definition digit_val :: "char \<Rightarrow> nat" where
  "digit_val c = of_char c - 48"

definition strip :: "string \<Rightarrow> string" where
  "strip s = rev (dropWhile is_space (rev (dropWhile is_space s)))"

fun digits_val :: "nat \<Rightarrow> string \<Rightarrow> nat option" where
  "digits_val acc [] = Some acc"
| "digits_val acc (c # cs) =
     (if is_digit c then digits_val (acc * 10 + digit_val c) cs
      else if c = CHR ''_'' then
        (case cs of
           [] \<Rightarrow> None
         | d # ds \<Rightarrow> if is_digit d then digits_val (acc * 10 + digit_val d) ds else None)
      else None)"

definition parse_digits :: "string \<Rightarrow> nat option" where
  "parse_digits s =
     (case s of
        [] \<Rightarrow> None
      | c # cs \<Rightarrow> if is_digit c then digits_val (digit_val c) cs else None)"

definition split_sign :: "string \<Rightarrow> int \<times> string" where
  "split_sign s =
     (case s of
        [] \<Rightarrow> (1, [])
      | c # cs \<Rightarrow>
          if c = CHR ''-'' then (- 1, cs) else if c = CHR ''+'' then (1, cs) else (1, c # cs))"

definition over_limit :: "py_runtime \<Rightarrow> nat \<Rightarrow> bool" where
  "over_limit rt n = (0 < int_max_str_digits rt \<and> int_max_str_digits rt < n)"

definition int_of_str :: "py_runtime \<Rightarrow> string \<Rightarrow> exc_class + int" where
  "int_of_str rt s =
     (case split_sign (strip s) of
        (sg, body) \<Rightarrow>
          (case parse_digits body of
             None \<Rightarrow> Inl ValueError
           | Some n \<Rightarrow>
               if over_limit rt (length (filter is_digit body)) then Inl ValueError
               else Inr (sg * int n)))"

text \<open>
  For a float, \<^verbatim>\<open>int\<close> drops the fractional part; an infinity is an
  \<^verbatim>\<open>OverflowError\<close> and NaN a \<^verbatim>\<open>ValueError\<close>.
\<close>

fun int_of_float :: "pyfloat \<Rightarrow> exc_class + int" where
  "int_of_float (Finite r) = Inr (if r < 0 then - \<lfloor>- r\<rfloor> else \<lfloor>r\<rfloor>)"
| "int_of_float NegZero = Inr 0"
| "int_of_float PosInf = Inl OverflowError"
| "int_of_float NegInf = Inl OverflowError"
| "int_of_float NaN = Inl ValueError"

fun int_builtin :: "py_runtime \<Rightarrow> pyval \<Rightarrow> exc_class + int" where
  "int_builtin rt PNone = Inl TypeError"
| "int_builtin rt (PBool b) = Inr (if b then 1 else 0)"
| "int_builtin rt (PInt i) = Inr i"
| "int_builtin rt (PFloat f) = int_of_float f"
| "int_builtin rt (PStr s) = int_of_str rt s"

subsection \<open>\<^verbatim>\<open>float(value)\<close>\<close>

text \<open>
  An integer is rounded to the nearest double (53 significant bits, ties to even); one
  that rounds to \<open>2 ^ 1024\<close> or more is an \<^verbatim>\<open>OverflowError\<close>.
\<close>

function bit_length :: "nat \<Rightarrow> nat" where
  "bit_length n = (if n = 0 then 0 else Suc (bit_length (n div 2)))"
  by pat_completeness auto
termination
  by (relation "measure id") auto

definition round_53 :: "nat \<Rightarrow> nat" where
  "round_53 n =
     (if bit_length n \<le> 53 then n
      else
        let e = bit_length n - 53;
            q = n div 2 ^ e;
            r = n mod 2 ^ e;
            h = 2 ^ (e - 1)
        in (if h < r \<or> (r = h \<and> odd q) then q + 1 else q) * 2 ^ e)"

definition float_of_int :: "int \<Rightarrow> exc_class + pyfloat" where
  "float_of_int i =
     (let m = round_53 (nat \<bar>i\<bar>)
      in if 2 ^ 1024 \<le> m then Inl OverflowError
         else Inr (Finite (if i < 0 then - of_nat m else of_nat m)))"

fun float_builtin :: "py_runtime \<Rightarrow> pyval \<Rightarrow> exc_class + pyfloat" where
  "float_builtin rt PNone = Inl TypeError"
| "float_builtin rt (PBool b) = Inr (Finite (if b then 1 else 0))"
| "float_builtin rt (PInt i) = float_of_int i"
| "float_builtin rt (PFloat f) = Inr f"
| "float_builtin rt (PStr s) =
     (case float_of_str rt s of None \<Rightarrow> Inl ValueError | Some f \<Rightarrow> Inr f)"

subsection \<open>\<^verbatim>\<open>str(value)\<close>\<close>

function dec_digits :: "nat \<Rightarrow> string" where
  "dec_digits n =
     (if n < 10 then [char_of (48 + n)]
      else dec_digits (n div 10) @ [char_of (48 + n mod 10)])"
  by pat_completeness auto
termination
  by (relation "measure id") auto

definition str_of_int :: "py_runtime \<Rightarrow> int \<Rightarrow> exc_class + string" where
  "str_of_int rt i =
     (let ds = dec_digits (nat \<bar>i\<bar>)
      in if over_limit rt (length ds) then Inl ValueError
         else Inr (if i < 0 then CHR ''-'' # ds else ds))"

fun str_builtin :: "py_runtime \<Rightarrow> pyval \<Rightarrow> exc_class + string" where
  "str_builtin rt PNone = Inr ''None''"
| "str_builtin rt (PBool b) = Inr (if b then ''True'' else ''False'')"
| "str_builtin rt (PInt i) = str_of_int rt i"
| "str_builtin rt (PFloat f) = Inr (float_repr rt f)"
| "str_builtin rt (PStr s) = Inr s"

section \<open>\<^verbatim>\<open>parse_val\<close>\<close>

text \<open>
  \<^verbatim>\<open>
  def parse_val(value, target_type):
      if value is None:
          return None
      try:
          if target_type == str:     return str(value)
          elif target_type == int:   return int(value)
          elif target_type == float: return float(value)
          else:                      return value
      except (ValueError, TypeError):
          return None
  \<close>
  The result is \<open>Inl c\<close> when an exception of class \<open>c\<close> leaves the function.
\<close>

datatype target_type = TStr | TInt | TFloat | TOther

fun convert :: "py_runtime \<Rightarrow> pyval \<Rightarrow> target_type \<Rightarrow> exc_class + pyval" where
  "convert rt v TStr = map_sum id PStr (str_builtin rt v)"
| "convert rt v TInt = map_sum id PInt (int_builtin rt v)"
| "convert rt v TFloat = map_sum id PFloat (float_builtin rt v)"
| "convert rt v TOther = Inr v"

definition parse_val :: "py_runtime \<Rightarrow> pyval \<Rightarrow> target_type \<Rightarrow> exc_class + pyval" where
  "parse_val rt v target =
     (if v = PNone then Inr PNone
      else
        (case convert rt v target of
           Inl c \<Rightarrow> if c = ValueError \<or> c = TypeError then Inr PNone else Inl c
         | Inr x \<Rightarrow> Inr x))"

section \<open>\<^verbatim>\<open>news_search\<close>\<close>

subsection \<open>Normalisation and the query parameters (lines 44 to 70)\<close>

text \<open>
  \<^verbatim>\<open>s.replace(old, new)\<close>: every occurrence of \<open>old\<close>, found from the left without
  overlap, becomes \<open>new\<close>; an empty \<open>old\<close> matches before every character and at the end.
\<close>

function str_replace :: "string \<Rightarrow> string \<Rightarrow> string \<Rightarrow> string" where
  "str_replace [] old new = (if old = [] then new else [])"
| "str_replace (c # cs) old new =
     (if old = [] then new @ c # str_replace cs old new
      else if prefix old (c # cs) then new @ str_replace (drop (length old) (c # cs)) old new
      else c # str_replace cs old new)"
  by pat_completeness auto
termination
  by (relation "measure (\<lambda>(s, old, new). length s)") auto

text \<open>Truth value of an argument, as \<^verbatim>\<open>if location_val:\<close> tests it.\<close>

fun truthy :: "pyval \<Rightarrow> bool" where
  "truthy PNone = False"
| "truthy (PBool b) = b"
| "truthy (PInt i) = (i \<noteq> 0)"
| "truthy (PFloat f) = (f \<noteq> Finite 0 \<and> f \<noteq> NegZero)"
| "truthy (PStr s) = (s \<noteq> [])"

text \<open>
  \<^verbatim>\<open>
  if location_val:
      location_val = location_val.replace("_", " ").replace(",", " ")
  \<close>
  Only a string has the method; \<^verbatim>\<open>parse_val(location, str)\<close> gives a string or
  \<^verbatim>\<open>None\<close>, so the \<^verbatim>\<open>AttributeError\<close> of the other cases is never met.
\<close>

fun replace_separators :: "pyval \<Rightarrow> exc_class + pyval" where
  "replace_separators (PStr s) =
     Inr (PStr (if s \<noteq> [] then str_replace (str_replace s ''_'' '' '') '','' '' '' else s))"
| "replace_separators v = (if truthy v then Inl AttributeError else Inr v)"

text \<open>
  \<^verbatim>\<open>
  params = {'q': query, 'size': size_val}
  if location_val:              params['location'] = location_val
  if latitude_val is not None:  params['latitude'] = latitude_val
  if longitude_val is not None: params['longitude'] = longitude_val
  \<close>
  A dictionary keeps its keys in the order of insertion: an association list, with
  \<^const>\<open>AList.update\<close> for the assignment to a key.
\<close>

definition build_params ::
  "pyval \<Rightarrow> pyval \<Rightarrow> pyval \<Rightarrow> pyval \<Rightarrow> pyval \<Rightarrow> (string \<times> pyval) list" where
  "build_params query size_val location_val latitude_val longitude_val =
     (let params = [(''q'', query), (''size'', size_val)];
          params = (if truthy location_val
                    then AList.update ''location'' location_val params else params);
          params = (if latitude_val \<noteq> PNone
                    then AList.update ''latitude'' latitude_val params else params);
          params = (if longitude_val \<noteq> PNone
                    then AList.update ''longitude'' longitude_val params else params)
      in params)"

text \<open>
  The arguments of \<^verbatim>\<open>session.get(url, params=params, timeout=5, raise_for_status=True,
  headers=headers)\<close>. The key is read once, when the module is loaded:
  \<^verbatim>\<open>rapid_api_key = os.getenv("RAPID_API_KEY")\<close>, which is \<^verbatim>\<open>None\<close> for an unset variable.
\<close>

record request =
  http_method :: string
  url :: string
  params :: "(string \<times> pyval) list"
  timeout :: nat
  raise_for_status :: bool
  headers :: "(string \<times> string option) list"

definition rapid_api_key :: "(string \<rightharpoonup> string) \<Rightarrow> string option" where
  "rapid_api_key environ = environ ''RAPID_API_KEY''"

text \<open>
  Lines 44 to 70: the five coercions in the order of the source, the clean-up of the
  location and the request. Nothing here stands inside the \<^verbatim>\<open>try\<close> block, so an exception
  of a coercion leaves \<^verbatim>\<open>news_search\<close>.
\<close>

definition news_search_request ::
  "py_runtime \<Rightarrow> (string \<rightharpoonup> string) \<Rightarrow> pyval \<Rightarrow> pyval \<Rightarrow> pyval \<Rightarrow> pyval \<Rightarrow> pyval
     \<Rightarrow> exc_class + request" where
  "news_search_request rt environ q size_arg location latitude longitude =
     (case parse_val rt q TStr of Inl c \<Rightarrow> Inl c | Inr query \<Rightarrow>
     (case parse_val rt size_arg TInt of Inl c \<Rightarrow> Inl c | Inr size_val \<Rightarrow>
     (case parse_val rt location TStr of Inl c \<Rightarrow> Inl c | Inr location_val \<Rightarrow>
     (case parse_val rt latitude TFloat of Inl c \<Rightarrow> Inl c | Inr latitude_val \<Rightarrow>
     (case parse_val rt longitude TFloat of Inl c \<Rightarrow> Inl c | Inr longitude_val \<Rightarrow>
     (case replace_separators location_val of Inl c \<Rightarrow> Inl c | Inr location_val' \<Rightarrow>
        Inr \<lparr>http_method = ''GET'',
             url = ''https://aigeon-news-search1.p.rapidapi.com/api/search'',
             params = build_params query size_val location_val' latitude_val longitude_val,
             timeout = 5,
             raise_for_status = True,
             headers = [(''x-rapidapi-host'', Some ''aigeon-news-search1.p.rapidapi.com''),
                        (''x-rapidapi-key'', rapid_api_key environ)]\<rparr>))))))"

subsection \<open>The request and the mapping of its outcome (lines 72 to 82)\<close>

text \<open>
  The values \<^verbatim>\<open>r.json()\<close> can return: \<^verbatim>\<open>None\<close>, a Boolean, a number, a string, a list
  or a dictionary.
\<close>

datatype json =
  JNull | JBool bool | JInt int | JFloat pyfloat | JStr string
  | JArr "json list" | JObj "(string \<times> json) list"

fun is_list :: "json \<Rightarrow> bool" where
  "is_list (JArr xs) = True"
| "is_list v = False"

text \<open>
  A response, as far as the code looks at it: its status, the text of the
  \<^verbatim>\<open>ClientResponseError\<close> the client library builds from it, and what awaiting
  \<^verbatim>\<open>r.json()\<close> gives: the decoded body, or the exception raised while the body is read
  and decoded.
\<close>

record response =
  status :: nat
  status_error_str :: string
  json_result :: "py_exc + json"

text \<open>
  The remote side is a function \<open>send\<close> from the request to what comes back: \<open>Inl e\<close>
  when building or sending the request or waiting for the response raises \<open>e\<close> (a
  connection error, the time-out), else the response. With \<^verbatim>\<open>raise_for_status=True\<close> the
  client library (aiohttp) then raises \<^verbatim>\<open>ClientResponseError\<close> for a response that is not
  \<^verbatim>\<open>ok\<close>, and its \<^verbatim>\<open>ok\<close> is \<^verbatim>\<open>400 > self.status\<close>.
\<close>

definition session_get :: "(request \<Rightarrow> py_exc + response) \<Rightarrow> request \<Rightarrow> py_exc + response" where
  "session_get send req =
     (case send req of
        Inl e \<Rightarrow> Inl e
      | Inr r \<Rightarrow>
          if raise_for_status req \<and> 400 \<le> status r
          then Inl (Exc (OtherException ''ClientResponseError'') (status_error_str r))
          else Inr r)"

text \<open>
  \<^verbatim>\<open>
  except Exception as e:
      logging.warning("", exc_info=True)
      return {"status": "failed", "reason": str(e)}
  \<close>
  An exception that is not an \<^verbatim>\<open>Exception\<close> passes the handler. The log record is not
  part of the model.
\<close>

definition failed :: "string \<Rightarrow> json" where
  "failed reason = JObj [(''status'', JStr ''failed''), (''reason'', JStr reason)]"

definition on_exception :: "py_exc \<Rightarrow> exc_class + json" where
  "on_exception e = (if is_Exception (exc_cls e) then Inr (failed (exc_str e)) else Inl (exc_cls e))"

text \<open>
  \<^verbatim>\<open>
  try:
      async with aiohttp.ClientSession() as session:
          async with session.get(...) as r:
              response = await r.json()
              if isinstance(response, list):
                  return {"result": response}
              return response
  except Exception as e: ...
  \<close>
\<close>

definition perform :: "(request \<Rightarrow> py_exc + response) \<Rightarrow> request \<Rightarrow> exc_class + json" where
  "perform send req =
     (case session_get send req of
        Inl e \<Rightarrow> on_exception e
      | Inr r \<Rightarrow>
          (case json_result r of
             Inl e \<Rightarrow> on_exception e
           | Inr response \<Rightarrow>
               Inr (if is_list response then JObj [(''result'', response)] else response)))"

text \<open>
  The whole tool function. \<open>Inl c\<close>: an exception of class \<open>c\<close> reaches the caller;
  \<open>Inr v\<close>: the function returns \<open>v\<close>.
\<close>

definition news_search ::
  "py_runtime \<Rightarrow> (string \<rightharpoonup> string) \<Rightarrow> (request \<Rightarrow> py_exc + response)
     \<Rightarrow> pyval \<Rightarrow> pyval \<Rightarrow> pyval \<Rightarrow> pyval \<Rightarrow> pyval \<Rightarrow> exc_class + json" where
  "news_search rt environ send q size_arg location latitude longitude =
     (case news_search_request rt environ q size_arg location latitude longitude of
        Inl c \<Rightarrow> Inl c
      | Inr req \<Rightarrow> perform send req)"

subsection \<open>Values for the examples\<close>

text \<open>
  A runtime for the concrete examples below, none of which formats or parses a float: the
  default digit limit of Python 3.11.
\<close>

definition sample_runtime :: py_runtime where
  "sample_runtime =
     \<lparr>float_repr = (\<lambda>f. []), float_of_str = (\<lambda>s. None), int_max_str_digits = 4300\<rparr>"

text \<open>
  The failure object has exactly the keys \<^verbatim>\<open>status\<close> and \<^verbatim>\<open>reason\<close>, the first with the
  value \<^verbatim>\<open>"failed"\<close>, the second with a string.
\<close>

definition has_failed_shape :: "json \<Rightarrow> bool" where
  "has_failed_shape v =
     (case v of
        JObj kvs \<Rightarrow>
          map fst kvs = [''status'', ''reason''] \<and> map_of kvs ''status'' = Some (JStr ''failed'')
          \<and> (case map_of kvs ''reason'' of Some (JStr reason) \<Rightarrow> True | _ \<Rightarrow> False)
      | _ \<Rightarrow> False)"

section \<open>Properties of the coercion\<close>

subsection \<open>What \<^verbatim>\<open>parse_val\<close> can return\<close>

lemma convert_TStr_cases:
  "convert rt v TStr = Inl ValueError \<or> (\<exists>s. convert rt v TStr = Inr (PStr s))"
  by (cases v) (auto simp: str_of_int_def Let_def)

lemma parse_val_TStr_cases:
  "parse_val rt v TStr = Inr PNone \<or> (\<exists>s. parse_val rt v TStr = Inr (PStr s))"
  using convert_TStr_cases [of rt v] by (auto simp: parse_val_def)

lemma int_of_float_cases:
  "int_of_float f = Inl ValueError \<or> int_of_float f = Inl OverflowError \<or> (\<exists>i. int_of_float f = Inr i)"
  by (cases f) auto

lemma int_of_str_cases:
  "int_of_str rt s = Inl ValueError \<or> (\<exists>i. int_of_str rt s = Inr i)"
  by (auto simp: int_of_str_def split: prod.splits option.splits)

lemma parse_val_TInt_cases:
  "parse_val rt v TInt = Inl OverflowError \<or> parse_val rt v TInt = Inr PNone
     \<or> (\<exists>i. parse_val rt v TInt = Inr (PInt i))"
proof (cases v)
  case (PFloat f)
  then show ?thesis using int_of_float_cases [of f] by (auto simp: parse_val_def)
next
  case (PStr s)
  then show ?thesis using int_of_str_cases [of rt s] by (auto simp: parse_val_def)
qed (auto simp: parse_val_def)

lemma parse_val_TFloat_cases:
  "parse_val rt v TFloat = Inl OverflowError \<or> parse_val rt v TFloat = Inr PNone
     \<or> (\<exists>f. parse_val rt v TFloat = Inr (PFloat f))"
  by (cases v) (auto simp: parse_val_def float_of_int_def Let_def split: option.splits)

lemma parse_val_raises_only_overflow:
  "parse_val rt v t = Inl c \<Longrightarrow> c = OverflowError"
proof (cases t)
  case TStr
  assume "parse_val rt v t = Inl c"
  with TStr show ?thesis using parse_val_TStr_cases [of rt v] by auto
next
  case TInt
  assume "parse_val rt v t = Inl c"
  with TInt show ?thesis using parse_val_TInt_cases [of rt v] by auto
next
  case TFloat
  assume "parse_val rt v t = Inl c"
  with TFloat show ?thesis using parse_val_TFloat_cases [of rt v] by auto
next
  case TOther
  assume "parse_val rt v t = Inl c"
  with TOther show ?thesis by (auto simp: parse_val_def split: if_splits)
qed

text \<open>
  \<^verbatim>\<open>parse_val\<close> raises in exactly two situations, both with \<^verbatim>\<open>OverflowError\<close>, which its
  \<^verbatim>\<open>except\<close> clause does not name: an infinite float with target \<^verbatim>\<open>int\<close>, and an integer
  beyond the range of a double with target \<^verbatim>\<open>float\<close>.
\<close>

lemma parse_val_raises_iff:
  "parse_val rt v t = Inl c \<longleftrightarrow>
     c = OverflowError
     \<and> (t = TInt \<and> (v = PFloat PosInf \<or> v = PFloat NegInf)
        \<or> t = TFloat \<and> (\<exists>i. v = PInt i \<and> 2 ^ 1024 \<le> round_53 (nat \<bar>i\<bar>)))"
proof (cases t)
  case TStr
  then show ?thesis using parse_val_TStr_cases [of rt v] by auto
next
  case TInt
  show ?thesis
  proof (cases v)
    case (PFloat f)
    with TInt show ?thesis by (cases f) (auto simp: parse_val_def)
  next
    case (PStr s)
    with TInt show ?thesis using int_of_str_cases [of rt s] by (auto simp: parse_val_def)
  qed (auto simp: TInt parse_val_def)
next
  case TFloat
  then show ?thesis
    by (cases v) (auto simp: parse_val_def float_of_int_def Let_def split: option.splits)
next
  case TOther
  then show ?thesis by (auto simp: parse_val_def)
qed

text \<open>
  C5 (the code departs from the claim). The claim: the coercion step never raises, every
  failed coercion gives \<^verbatim>\<open>None\<close>. For \<^verbatim>\<open>size = float('inf')\<close>, \<^verbatim>\<open>int\<close> raises
  \<^verbatim>\<open>OverflowError\<close>; it passes \<^verbatim>\<open>except (ValueError, TypeError)\<close>, and since the coercions
  stand before the \<^verbatim>\<open>try\<close> block it leaves \<^verbatim>\<open>news_search\<close> too, whatever the other arguments
  and the remote side are.
\<close>

theorem coercion_overflow_escapes:
  "int_builtin rt (PFloat PosInf) = Inl OverflowError
   \<and> parse_val rt (PFloat PosInf) TInt = Inl OverflowError
   \<and> news_search rt environ send q (PFloat PosInf) location latitude longitude
       = Inl OverflowError"
proof -
  have "parse_val rt (PFloat PosInf) TInt = Inl OverflowError"
    by (simp add: parse_val_def)
  then show ?thesis
    using parse_val_TStr_cases [of rt q]
    by (auto simp: news_search_def news_search_request_def)
qed

subsection \<open>Strings that \<^verbatim>\<open>int\<close> refuses\<close>

lemma in_dropWhile:
  "x \<in> set xs \<Longrightarrow> \<not> P x \<Longrightarrow> x \<in> set (dropWhile P xs)"
  by (induction xs) auto

lemma in_strip:
  "c \<in> set s \<Longrightarrow> \<not> is_space c \<Longrightarrow> c \<in> set (strip s)"
  by (simp add: strip_def in_dropWhile)

lemma digits_val_rejects:
  "c \<in> set cs \<Longrightarrow> \<not> is_digit c \<Longrightarrow> c \<noteq> CHR ''_'' \<Longrightarrow> digits_val acc cs = None"
proof (induction acc cs rule: digits_val.induct)
  case (1 acc)
  then show ?case by simp
next
  case (2 acc x xs)
  show ?case
  proof (cases "is_digit x")
    case True
    with "2.prems" have "c \<in> set xs" by auto
    with True "2.IH"(1) "2.prems" show ?thesis by simp
  next
    case nd: False
    show ?thesis
    proof (cases "x = CHR ''_''")
      case False
      with nd show ?thesis by simp
    next
      case us: True
      with "2.prems" have mem: "c \<in> set xs" by auto
      show ?thesis
      proof (cases xs)
        case Nil
        with nd us show ?thesis by simp
      next
        case (Cons d ds)
        show ?thesis
        proof (cases "is_digit d")
          case False
          with nd us Cons show ?thesis by simp
        next
          case True
          with mem Cons "2.prems" have "c \<in> set ds" by auto
          with nd us Cons True "2.IH"(2) "2.prems" show ?thesis by simp
        qed
      qed
    qed
  qed
qed

lemma parse_digits_rejects:
  "c \<in> set cs \<Longrightarrow> \<not> is_digit c \<Longrightarrow> c \<noteq> CHR ''_'' \<Longrightarrow> parse_digits cs = None"
  using digits_val_rejects [of c] by (cases cs) (auto simp: parse_digits_def)

lemma in_split_sign:
  "c \<in> set s \<Longrightarrow> c \<noteq> CHR ''-'' \<Longrightarrow> c \<noteq> CHR ''+'' \<Longrightarrow> c \<in> set (snd (split_sign s))"
  by (cases s) (auto simp: split_sign_def)

lemma int_of_str_rejects:
  assumes "c \<in> set s" and "\<not> is_space c" and "\<not> is_digit c"
    and "c \<noteq> CHR ''_''" and "c \<noteq> CHR ''-''" and "c \<noteq> CHR ''+''"
  shows "int_of_str rt s = Inl ValueError"
proof -
  obtain sg body where sp: "split_sign (strip s) = (sg, body)"
    by (cases "split_sign (strip s)") auto
  have "c \<in> set (snd (split_sign (strip s)))"
    using assms by (simp add: in_strip in_split_sign)
  then have "c \<in> set body"
    using sp by simp
  then have "parse_digits body = None"
    using assms by (simp add: parse_digits_rejects)
  then show ?thesis
    using sp by (simp add: int_of_str_def)
qed

lemma dot_plain: "\<not> is_space CHR ''.'' \<and> \<not> is_digit CHR ''.''"
  by (simp add: is_space_def is_digit_def)

lemma truncation_neg:
  fixes r :: rat
  assumes "r < 0"
  shows "\<bar>of_int (- \<lfloor>- r\<rfloor>)\<bar> \<le> \<bar>r\<bar> \<and> \<bar>r\<bar> < \<bar>of_int (- \<lfloor>- r\<rfloor>)\<bar> + 1
    \<and> 0 \<le> of_int (- \<lfloor>- r\<rfloor>) * r"
proof -
  define k where "k = \<lfloor>- r\<rfloor>"
  have k0: "0 \<le> k" using assms by (simp add: k_def)
  have lo: "of_int k \<le> - r" unfolding k_def by (rule of_int_floor_le)
  have hi: "- r < of_int k + 1" unfolding k_def by linarith
  have abs_k: "\<bar>of_int (- k) :: rat\<bar> = of_int k" using k0 by simp
  have abs_r: "\<bar>r\<bar> = - r" using assms by simp
  have "0 \<le> (of_int k :: rat) * (- r)"
    using k0 assms by (intro mult_nonneg_nonneg) simp_all
  then have "0 \<le> (of_int (- k) :: rat) * r" by simp
  then show ?thesis
    using lo hi abs_k abs_r unfolding k_def [symmetric] by simp
qed

lemma truncation_pos:
  fixes r :: rat
  assumes "\<not> r < 0"
  shows "\<bar>of_int \<lfloor>r\<rfloor>\<bar> \<le> \<bar>r\<bar> \<and> \<bar>r\<bar> < \<bar>of_int \<lfloor>r\<rfloor>\<bar> + 1 \<and> 0 \<le> of_int \<lfloor>r\<rfloor> * r"
proof -
  define k where "k = \<lfloor>r\<rfloor>"
  have k0: "0 \<le> k" using assms by (simp add: k_def)
  have lo: "of_int k \<le> r" unfolding k_def by (rule of_int_floor_le)
  have hi: "r < of_int k + 1" unfolding k_def by linarith
  have abs_k: "\<bar>of_int k :: rat\<bar> = of_int k" using k0 by simp
  have abs_r: "\<bar>r\<bar> = r" using assms by simp
  have "0 \<le> (of_int k :: rat) * r"
    using k0 assms by (intro mult_nonneg_nonneg) simp_all
  then show ?thesis
    using lo hi abs_k abs_r unfolding k_def [symmetric] by simp
qed

subsection \<open>Floats are truncated, strings with a decimal point are refused\<close>

text \<open>
  C10. With target \<^verbatim>\<open>int\<close>, \<^verbatim>\<open>parse_val\<close> truncates every finite float toward zero: the
  result \<open>i\<close> lies between zero and the float \<open>r\<close>, less than one away from it (so 10.9
  gives 10). For every string that contains a decimal point, \<^verbatim>\<open>int\<close> raises
  \<^verbatim>\<open>ValueError\<close> and \<^verbatim>\<open>parse_val\<close> returns \<^verbatim>\<open>None\<close>, also when the string is numeric, as
  \<^verbatim>\<open>"10.5"\<close>.
\<close>

theorem size_coercion_asymmetry:
  "(\<exists>i. parse_val rt (PFloat (Finite r)) TInt = Inr (PInt i)
        \<and> \<bar>of_int i\<bar> \<le> \<bar>r\<bar> \<and> \<bar>r\<bar> < \<bar>of_int i\<bar> + 1 \<and> 0 \<le> of_int i * r)
   \<and> (CHR ''.'' \<in> set s \<longrightarrow>
        int_builtin rt (PStr s) = Inl ValueError \<and> parse_val rt (PStr s) TInt = Inr PNone)"
proof -
  have str: "CHR ''.'' \<in> set s \<Longrightarrow> int_of_str rt s = Inl ValueError"
    using int_of_str_rejects [of "CHR ''.''" s rt] dot_plain by simp
  have flt: "parse_val rt (PFloat (Finite r)) TInt
      = Inr (PInt (if r < 0 then - \<lfloor>- r\<rfloor> else \<lfloor>r\<rfloor>))"
    by (simp add: parse_val_def)
  have "\<exists>i. parse_val rt (PFloat (Finite r)) TInt = Inr (PInt i)
        \<and> \<bar>of_int i\<bar> \<le> \<bar>r\<bar> \<and> \<bar>r\<bar> < \<bar>of_int i\<bar> + 1 \<and> 0 \<le> of_int i * r"
  proof (cases "r < 0")
    case True
    with flt truncation_neg [of r] show ?thesis by auto
  next
    case False
    with flt truncation_pos [of r] show ?thesis by auto
  qed
  moreover have "CHR ''.'' \<in> set s \<longrightarrow>
      int_builtin rt (PStr s) = Inl ValueError \<and> parse_val rt (PStr s) TInt = Inr PNone"
    using str by (simp add: parse_val_def)
  ultimately show ?thesis by blast
qed

theorem size_coercion_asymmetry_witness:
  "CHR ''.'' \<in> set ''10.5''
   \<and> parse_val sample_runtime (PFloat (Finite (109 / 10))) TInt = Inr (PInt 10)
   \<and> int_builtin sample_runtime (PStr ''10.5'') = Inl ValueError
   \<and> parse_val sample_runtime (PStr ''10.5'') TInt = Inr PNone"
  using size_coercion_asymmetry [of sample_runtime "109 / 10" "''10.5''"]
  by (simp add: parse_val_def)

section \<open>Properties of the request\<close>

subsection \<open>The steps of \<^verbatim>\<open>news_search_request\<close>\<close>

lemma str_replace_char:
  "str_replace s [a] [b] = map (\<lambda>c. if c = a then b else c) s"
  by (induction s) auto

lemma replace_separators_str:
  "replace_separators (PStr s) =
     Inr (PStr (map (\<lambda>c. if c = CHR '','' then CHR '' '' else c)
                  (map (\<lambda>c. if c = CHR ''_'' then CHR '' '' else c) s)))"
  by (simp add: str_replace_char)

lemma replace_separators_truthy:
  "replace_separators v = Inr v' \<Longrightarrow> truthy v' = truthy v"
  by (cases v) (auto simp: str_replace_char split: if_splits)

lemma news_search_request_cases:
  assumes "news_search_request rt environ q size_arg location latitude longitude = Inr req"
  obtains query size_val location_val latitude_val longitude_val location_val'
  where "parse_val rt q TStr = Inr query"
    and "parse_val rt size_arg TInt = Inr size_val"
    and "parse_val rt location TStr = Inr location_val"
    and "parse_val rt latitude TFloat = Inr latitude_val"
    and "parse_val rt longitude TFloat = Inr longitude_val"
    and "replace_separators location_val = Inr location_val'"
    and "req = \<lparr>http_method = ''GET'',
             url = ''https://aigeon-news-search1.p.rapidapi.com/api/search'',
             params = build_params query size_val location_val' latitude_val longitude_val,
             timeout = 5,
             raise_for_status = True,
             headers = [(''x-rapidapi-host'', Some ''aigeon-news-search1.p.rapidapi.com''),
                        (''x-rapidapi-key'', rapid_api_key environ)]\<rparr>"
  using assms unfolding news_search_request_def
  by (auto split: sum.splits)

lemma news_search_request_raises_only_overflow:
  assumes "news_search_request rt environ q size_arg location latitude longitude = Inl c"
  shows "c = OverflowError"
proof -
  have rs: "\<And>v x. parse_val rt location TStr = Inr v \<Longrightarrow> replace_separators v \<noteq> Inl x"
    using parse_val_TStr_cases [of rt location] by auto
  show ?thesis
    using assms rs unfolding news_search_request_def
    by (auto split: sum.splits dest: parse_val_raises_only_overflow)
qed

lemma build_params_keys:
  "fst ` set (build_params query size_val location_val latitude_val longitude_val) =
     {''q'', ''size''} \<union> (if truthy location_val then {''location''} else {})
       \<union> (if latitude_val \<noteq> PNone then {''latitude''} else {})
       \<union> (if longitude_val \<noteq> PNone then {''longitude''} else {})"
  by (auto simp: build_params_def Let_def dom_update)

lemma build_params_lookup:
  "map_of (build_params query size_val location_val latitude_val longitude_val) =
     (\<lambda>k. if k = ''longitude'' \<and> longitude_val \<noteq> PNone then Some longitude_val
          else if k = ''latitude'' \<and> latitude_val \<noteq> PNone then Some latitude_val
          else if k = ''location'' \<and> truthy location_val then Some location_val
          else if k = ''size'' then Some size_val
          else if k = ''q'' then Some query
          else None)"
  by (rule ext) (simp add: build_params_def Let_def update_conv')

text \<open>
  Two calls for the examples: the plain one, and one with a size that is no number, a
  location with separators and a latitude. The second shows that a size of \<^verbatim>\<open>"abc"\<close>
  becomes \<^verbatim>\<open>None\<close> and the request is still built.
\<close>

lemma sample_request:
  "news_search_request sample_runtime Map.empty
     (PStr ''election'') (PInt 10) PNone PNone PNone =
   Inr \<lparr>http_method = ''GET'',
        url = ''https://aigeon-news-search1.p.rapidapi.com/api/search'',
        params = [(''q'', PStr ''election''), (''size'', PInt 10)],
        timeout = 5,
        raise_for_status = True,
        headers = [(''x-rapidapi-host'', Some ''aigeon-news-search1.p.rapidapi.com''),
                   (''x-rapidapi-key'', None)]\<rparr>"
  by (simp add: news_search_request_def parse_val_def build_params_def rapid_api_key_def)

lemma located_request:
  "news_search_request sample_runtime Map.empty
     (PStr ''election'') (PStr ''abc'') (PStr ''Los_Angeles, CA'')
     (PFloat (Finite (341 / 10))) PNone =
   Inr \<lparr>http_method = ''GET'',
        url = ''https://aigeon-news-search1.p.rapidapi.com/api/search'',
        params = [(''q'', PStr ''election''), (''size'', PNone),
                  (''location'', PStr ''Los Angeles  CA''),
                  (''latitude'', PFloat (Finite (341 / 10)))],
        timeout = 5,
        raise_for_status = True,
        headers = [(''x-rapidapi-host'', Some ''aigeon-news-search1.p.rapidapi.com''),
                   (''x-rapidapi-key'', None)]\<rparr>"
proof -
  have "int_of_str sample_runtime ''abc'' = Inl ValueError"
    by (rule int_of_str_rejects [of "CHR ''a''"]) (simp_all add: is_space_def is_digit_def)
  then show ?thesis
    by (simp add: news_search_request_def parse_val_def build_params_def rapid_api_key_def
        str_replace_char)
qed

subsection \<open>The keys of the query parameters\<close>

text \<open>
  C3. Whenever a request is built, its parameters hold \<^verbatim>\<open>q\<close> and \<^verbatim>\<open>size\<close> with the
  coerced values, also when these are \<^verbatim>\<open>None\<close>; they hold \<^verbatim>\<open>location\<close> exactly when the
  cleaned location is truthy, and \<^verbatim>\<open>latitude\<close> (\<^verbatim>\<open>longitude\<close>) exactly when the coerced
  latitude (longitude) is not \<^verbatim>\<open>None\<close>; there is no other key.
\<close>

theorem query_parameter_keys:
  assumes "news_search_request rt environ q size_arg location latitude longitude = Inr req"
  shows "\<exists>query size_val location_val location_val' latitude_val longitude_val.
           parse_val rt q TStr = Inr query
         \<and> parse_val rt size_arg TInt = Inr size_val
         \<and> parse_val rt location TStr = Inr location_val
         \<and> replace_separators location_val = Inr location_val'
         \<and> parse_val rt latitude TFloat = Inr latitude_val
         \<and> parse_val rt longitude TFloat = Inr longitude_val
         \<and> map_of (params req) ''q'' = Some query
         \<and> map_of (params req) ''size'' = Some size_val
         \<and> (''location'' \<in> fst ` set (params req) \<longleftrightarrow> truthy location_val')
         \<and> (''latitude'' \<in> fst ` set (params req) \<longleftrightarrow> latitude_val \<noteq> PNone)
         \<and> (''longitude'' \<in> fst ` set (params req) \<longleftrightarrow> longitude_val \<noteq> PNone)
         \<and> fst ` set (params req)
              \<subseteq> {''q'', ''size'', ''location'', ''latitude'', ''longitude''}"
  using assms
proof (rule news_search_request_cases)
  fix query size_val location_val latitude_val longitude_val location_val'
  assume pv: "parse_val rt q TStr = Inr query" "parse_val rt size_arg TInt = Inr size_val"
      "parse_val rt location TStr = Inr location_val"
      "parse_val rt latitude TFloat = Inr latitude_val"
      "parse_val rt longitude TFloat = Inr longitude_val"
      "replace_separators location_val = Inr location_val'"
    and req: "req = \<lparr>http_method = ''GET'',
             url = ''https://aigeon-news-search1.p.rapidapi.com/api/search'',
             params = build_params query size_val location_val' latitude_val longitude_val,
             timeout = 5,
             raise_for_status = True,
             headers = [(''x-rapidapi-host'', Some ''aigeon-news-search1.p.rapidapi.com''),
                        (''x-rapidapi-key'', rapid_api_key environ)]\<rparr>"
  have p: "params req = build_params query size_val location_val' latitude_val longitude_val"
    using req by simp
  have "map_of (params req) ''q'' = Some query" "map_of (params req) ''size'' = Some size_val"
    by (simp_all add: p build_params_lookup)
  moreover have "''location'' \<in> fst ` set (params req) \<longleftrightarrow> truthy location_val'"
    "''latitude'' \<in> fst ` set (params req) \<longleftrightarrow> latitude_val \<noteq> PNone"
    "''longitude'' \<in> fst ` set (params req) \<longleftrightarrow> longitude_val \<noteq> PNone"
    "fst ` set (params req) \<subseteq> {''q'', ''size'', ''location'', ''latitude'', ''longitude''}"
    by (simp_all add: p build_params_keys)
  ultimately show ?thesis
    using pv by blast
qed

theorem query_parameter_keys_witness:
  "news_search_request sample_runtime Map.empty
     (PStr ''election'') (PStr ''abc'') (PStr ''Los_Angeles, CA'')
     (PFloat (Finite (341 / 10))) PNone =
   Inr \<lparr>http_method = ''GET'',
        url = ''https://aigeon-news-search1.p.rapidapi.com/api/search'',
        params = [(''q'', PStr ''election''), (''size'', PNone),
                  (''location'', PStr ''Los Angeles  CA''),
                  (''latitude'', PFloat (Finite (341 / 10)))],
        timeout = 5,
        raise_for_status = True,
        headers = [(''x-rapidapi-host'', Some ''aigeon-news-search1.p.rapidapi.com''),
                   (''x-rapidapi-key'', None)]\<rparr>
   \<and> parse_val sample_runtime (PStr ''abc'') TInt = Inr PNone
   \<and> parse_val sample_runtime PNone TFloat = Inr PNone
   \<and> map_of [(''q'', PStr ''election''), (''size'', PNone),
           (''location'', PStr ''Los Angeles  CA''),
           (''latitude'', PFloat (Finite (341 / 10)))] ''size'' = Some PNone
   \<and> ''longitude'' \<notin> fst ` set [(''q'', PStr ''election''), (''size'', PNone),
           (''location'', PStr ''Los Angeles  CA''),
           (''latitude'', PFloat (Finite (341 / 10)))]"
  using located_request query_parameter_keys [OF located_request]
  by auto

subsection \<open>The transmitted location\<close>

text \<open>
  C4. When the location coerces to a non-empty string \<open>s\<close>, the transmitted location is
  \<open>s\<close> with every underscore turned into a space and then every comma turned into a
  space, so it holds neither character; \<^verbatim>\<open>"Los_Angeles, CA"\<close> is sent as
  \<^verbatim>\<open>"Los Angeles  CA"\<close>, with two spaces.
\<close>

theorem location_separators_replaced:
  assumes "news_search_request rt environ q size_arg location latitude longitude = Inr req"
    and "parse_val rt location TStr = Inr (PStr s)"
    and "s \<noteq> []"
  shows "\<exists>t. map_of (params req) ''location'' = Some (PStr t)
           \<and> t = map (\<lambda>c. if c = CHR '','' then CHR '' '' else c)
                   (map (\<lambda>c. if c = CHR ''_'' then CHR '' '' else c) s)
           \<and> CHR ''_'' \<notin> set t \<and> CHR '','' \<notin> set t"
  using assms(1)
proof (rule news_search_request_cases)
  fix query size_val location_val latitude_val longitude_val location_val'
  assume lv: "parse_val rt location TStr = Inr location_val"
    and rs: "replace_separators location_val = Inr location_val'"
    and req: "req = \<lparr>http_method = ''GET'',
             url = ''https://aigeon-news-search1.p.rapidapi.com/api/search'',
             params = build_params query size_val location_val' latitude_val longitude_val,
             timeout = 5,
             raise_for_status = True,
             headers = [(''x-rapidapi-host'', Some ''aigeon-news-search1.p.rapidapi.com''),
                        (''x-rapidapi-key'', rapid_api_key environ)]\<rparr>"
  define t where "t = map (\<lambda>c. if c = CHR '','' then CHR '' '' else c)
                   (map (\<lambda>c. if c = CHR ''_'' then CHR '' '' else c) s)"
  have "location_val = PStr s"
    using lv assms(2) by simp
  moreover have "replace_separators (PStr s) = Inr (PStr t)"
    unfolding t_def by (rule replace_separators_str)
  ultimately have lv': "location_val' = PStr t"
    using rs by (simp del: replace_separators.simps)
  have "t \<noteq> []"
    using assms(3) by (simp add: t_def)
  then have "map_of (params req) ''location'' = Some (PStr t)"
    using req lv' by (simp add: build_params_lookup)
  moreover have "CHR ''_'' \<notin> set t" "CHR '','' \<notin> set t"
    by (auto simp: t_def)
  ultimately show ?thesis
    using t_def by blast
qed

theorem location_separators_replaced_witness:
  "news_search_request sample_runtime Map.empty
     (PStr ''election'') (PStr ''abc'') (PStr ''Los_Angeles, CA'')
     (PFloat (Finite (341 / 10))) PNone =
   Inr \<lparr>http_method = ''GET'',
        url = ''https://aigeon-news-search1.p.rapidapi.com/api/search'',
        params = [(''q'', PStr ''election''), (''size'', PNone),
                  (''location'', PStr ''Los Angeles  CA''),
                  (''latitude'', PFloat (Finite (341 / 10)))],
        timeout = 5,
        raise_for_status = True,
        headers = [(''x-rapidapi-host'', Some ''aigeon-news-search1.p.rapidapi.com''),
                   (''x-rapidapi-key'', None)]\<rparr>
   \<and> parse_val sample_runtime (PStr ''Los_Angeles, CA'') TStr = Inr (PStr ''Los_Angeles, CA'')
   \<and> ''Los_Angeles, CA'' \<noteq> []
   \<and> map_of [(''q'', PStr ''election''), (''size'', PNone),
           (''location'', PStr ''Los Angeles  CA''),
           (''latitude'', PFloat (Finite (341 / 10)))] ''location''
       = Some (PStr ''Los Angeles  CA'')
   \<and> ''Los Angeles  CA'' = map (\<lambda>c. if c = CHR '','' then CHR '' '' else c)
         (map (\<lambda>c. if c = CHR ''_'' then CHR '' '' else c) ''Los_Angeles, CA'')
   \<and> CHR ''_'' \<notin> set ''Los Angeles  CA'' \<and> CHR '','' \<notin> set ''Los Angeles  CA''"
proof -
  have h: "parse_val sample_runtime (PStr ''Los_Angeles, CA'') TStr = Inr (PStr ''Los_Angeles, CA'')"
    by (simp add: parse_val_def)
  have n: "''Los_Angeles, CA'' \<noteq> []"
    by simp
  show ?thesis
    using located_request location_separators_replaced [OF located_request h n] h by simp
qed

subsection \<open>URL, headers and time-out\<close>

text \<open>
  C7. Every request that \<^verbatim>\<open>news_search\<close> issues is a GET to the fixed URL, with the header
  \<^verbatim>\<open>x-rapidapi-host\<close> set to the fixed host, \<^verbatim>\<open>x-rapidapi-key\<close> set to the value of the
  environment variable \<^verbatim>\<open>RAPID_API_KEY\<close>, and a time-out of 5 seconds.
\<close>

theorem outbound_request_is_fixed:
  assumes "news_search_request rt environ q size_arg location latitude longitude = Inr req"
  shows "http_method req = ''GET''
       \<and> url req = ''https://aigeon-news-search1.p.rapidapi.com/api/search''
       \<and> headers req = [(''x-rapidapi-host'', Some ''aigeon-news-search1.p.rapidapi.com''),
                         (''x-rapidapi-key'', environ ''RAPID_API_KEY'')]
       \<and> timeout req = 5
       \<and> news_search rt environ send q size_arg location latitude longitude = perform send req"
  using assms
  by (rule news_search_request_cases) (simp add: rapid_api_key_def news_search_def assms)

theorem outbound_request_is_fixed_witness:
  "news_search_request sample_runtime [''RAPID_API_KEY'' \<mapsto> ''k3y'']
     (PStr ''election'') (PInt 10) PNone PNone PNone =
   Inr \<lparr>http_method = ''GET'',
        url = ''https://aigeon-news-search1.p.rapidapi.com/api/search'',
        params = [(''q'', PStr ''election''), (''size'', PInt 10)],
        timeout = 5,
        raise_for_status = True,
        headers = [(''x-rapidapi-host'', Some ''aigeon-news-search1.p.rapidapi.com''),
                   (''x-rapidapi-key'', Some ''k3y'')]\<rparr>"
proof -
  obtain req where r: "news_search_request sample_runtime [''RAPID_API_KEY'' \<mapsto> ''k3y'']
     (PStr ''election'') (PInt 10) PNone PNone PNone = Inr req"
    by (simp add: news_search_request_def parse_val_def)
  have "params req = [(''q'', PStr ''election''), (''size'', PInt 10)]"
    using r by (auto simp: news_search_request_def parse_val_def build_params_def)
  moreover have "raise_for_status req"
    using r by (auto simp: news_search_request_def parse_val_def)
  ultimately have "req = \<lparr>http_method = ''GET'',
        url = ''https://aigeon-news-search1.p.rapidapi.com/api/search'',
        params = [(''q'', PStr ''election''), (''size'', PInt 10)],
        timeout = 5,
        raise_for_status = True,
        headers = [(''x-rapidapi-host'', Some ''aigeon-news-search1.p.rapidapi.com''),
                   (''x-rapidapi-key'', Some ''k3y'')]\<rparr>"
    using outbound_request_is_fixed [OF r] by (cases req) simp
  then show ?thesis
    using r by simp
qed

section \<open>Properties of the outcome mapping\<close>

lemma failed_has_failed_shape: "has_failed_shape (failed reason)"
  by (simp add: has_failed_shape_def failed_def)

subsection \<open>Failures become the failure object\<close>

text \<open>
  C1. Once the request is built, every failure of the remote call ends in the object
  \<^verbatim>\<open>{"status": "failed", "reason": str(e)}\<close>, with exactly these two keys and the text of
  the error as reason: an exception while the request is built,
  sent or awaited (a network error, the time-out), a response with an HTTP error status,
  and an exception while the body is read and decoded. No exception that is an
  \<^verbatim>\<open>Exception\<close> leaves the call.
\<close>

theorem remote_failure_is_reported:
  assumes "news_search_request rt environ q size_arg location latitude longitude = Inr req"
  shows "(send req = Inl e \<and> is_Exception (exc_cls e) \<longrightarrow>
            news_search rt environ send q size_arg location latitude longitude
              = Inr (JObj [(''status'', JStr ''failed''), (''reason'', JStr (exc_str e))]))
       \<and> (send req = Inr r \<and> 400 \<le> status r \<longrightarrow>
            news_search rt environ send q size_arg location latitude longitude
              = Inr (JObj [(''status'', JStr ''failed''),
                           (''reason'', JStr (status_error_str r))]))
       \<and> (send req = Inr r \<and> status r < 400 \<and> json_result r = Inl e
            \<and> is_Exception (exc_cls e) \<longrightarrow>
            news_search rt environ send q size_arg location latitude longitude
              = Inr (JObj [(''status'', JStr ''failed''), (''reason'', JStr (exc_str e))]))
       \<and> (\<forall>c. news_search rt environ send q size_arg location latitude longitude = Inl c
            \<longrightarrow> \<not> is_Exception c)"
proof -
  have rfs: "raise_for_status req"
    using assms by (rule news_search_request_cases) simp
  have ns: "news_search rt environ send q size_arg location latitude longitude = perform send req"
    using assms by (simp add: news_search_def)
  have "\<And>c. perform send req = Inl c \<Longrightarrow> \<not> is_Exception c"
    by (auto simp: perform_def session_get_def on_exception_def split: sum.splits if_splits)
  then show ?thesis
    using rfs ns by (auto simp: perform_def session_get_def on_exception_def failed_def)
qed

theorem remote_failure_is_reported_witness:
  "news_search sample_runtime Map.empty
      (\<lambda>req. Inl (Exc (OtherException ''TimeoutError'') []))
      (PStr ''election'') (PInt 10) PNone PNone PNone
     = Inr (JObj [(''status'', JStr ''failed''), (''reason'', JStr [])])
   \<and> news_search sample_runtime Map.empty
      (\<lambda>req. Inr \<lparr>status = 401, status_error_str = ''401, message=Unauthorized'',
                    json_result = Inr (JObj [])\<rparr>)
      (PStr ''election'') (PInt 10) PNone PNone PNone
     = Inr (JObj [(''status'', JStr ''failed''),
                  (''reason'', JStr ''401, message=Unauthorized'')])
   \<and> news_search sample_runtime Map.empty
      (\<lambda>req. Inr \<lparr>status = 200, status_error_str = [],
                    json_result = Inl (Exc (OtherException ''ContentTypeError'') ''unexpected mimetype'')\<rparr>)
      (PStr ''election'') (PInt 10) PNone PNone PNone
     = Inr (JObj [(''status'', JStr ''failed''), (''reason'', JStr ''unexpected mimetype'')])"
  using
    remote_failure_is_reported [OF sample_request,
      where send = "\<lambda>req. Inl (Exc (OtherException ''TimeoutError'') [])"
        and e = "Exc (OtherException ''TimeoutError'') []"]
    remote_failure_is_reported [OF sample_request,
      where send = "\<lambda>req. Inr \<lparr>status = 401, status_error_str = ''401, message=Unauthorized'',
                    json_result = Inr (JObj [])\<rparr>"
        and r = "\<lparr>status = 401, status_error_str = ''401, message=Unauthorized'',
                    json_result = Inr (JObj [])\<rparr>"]
    remote_failure_is_reported [OF sample_request,
      where send = "\<lambda>req. Inr \<lparr>status = 200, status_error_str = [],
                    json_result = Inl (Exc (OtherException ''ContentTypeError'') ''unexpected mimetype'')\<rparr>"
        and r = "\<lparr>status = 200, status_error_str = [],
                    json_result = Inl (Exc (OtherException ''ContentTypeError'') ''unexpected mimetype'')\<rparr>"
        and e = "Exc (OtherException ''ContentTypeError'') ''unexpected mimetype''"]
  by simp

subsection \<open>Successful responses\<close>

text \<open>
  C2. When the remote call succeeds and the body decodes to an array, \<^verbatim>\<open>news_search\<close>
  returns \<^verbatim>\<open>{"result": <array>}\<close> around that array; when it decodes to an object,
  \<^verbatim>\<open>news_search\<close> returns the object unchanged.
\<close>

theorem success_body_wrapped_or_unchanged:
  assumes "news_search_request rt environ q size_arg location latitude longitude = Inr req"
    and "session_get send req = Inr r"
    and "json_result r = Inr body"
  shows "(body = JArr xs \<longrightarrow>
            news_search rt environ send q size_arg location latitude longitude
              = Inr (JObj [(''result'', JArr xs)]))
       \<and> (body = JObj kvs \<longrightarrow>
            news_search rt environ send q size_arg location latitude longitude = Inr (JObj kvs))"
  using assms by (simp add: news_search_def perform_def)

theorem success_body_wrapped_or_unchanged_witness:
  "news_search sample_runtime Map.empty
      (\<lambda>req. Inr \<lparr>status = 200, status_error_str = [],
                    json_result = Inr (JArr [JObj [(''title'', JStr ''A'')], JObj [(''title'', JStr ''B'')]])\<rparr>)
      (PStr ''election'') (PInt 10) PNone PNone PNone
     = Inr (JObj [(''result'', JArr [JObj [(''title'', JStr ''A'')], JObj [(''title'', JStr ''B'')]])])
   \<and> news_search sample_runtime Map.empty
      (\<lambda>req. Inr \<lparr>status = 200, status_error_str = [],
                    json_result = Inr (JObj [(''total'', JInt 0)])\<rparr>)
      (PStr ''election'') (PInt 10) PNone PNone PNone
     = Inr (JObj [(''total'', JInt 0)])"
proof -
  let ?r1 = "\<lparr>status = 200, status_error_str = [],
     json_result = Inr (JArr [JObj [(''title'', JStr ''A'')], JObj [(''title'', JStr ''B'')]])\<rparr>"
  let ?r2 = "\<lparr>status = 200, status_error_str = [], json_result = Inr (JObj [(''total'', JInt 0)])\<rparr>"
  have g1: "\<And>req. session_get (\<lambda>req. Inr ?r1) req = Inr ?r1"
    by (simp add: session_get_def)
  have g2: "\<And>req. session_get (\<lambda>req. Inr ?r2) req = Inr ?r2"
    by (simp add: session_get_def)
  have j1: "json_result ?r1 = Inr (JArr [JObj [(''title'', JStr ''A'')], JObj [(''title'', JStr ''B'')]])"
    by simp
  have j2: "json_result ?r2 = Inr (JObj [(''total'', JInt 0)])"
    by simp
  show ?thesis
    using success_body_wrapped_or_unchanged [OF sample_request g1 j1]
      success_body_wrapped_or_unchanged [OF sample_request g2 j2]
    by simp
qed

text \<open>
  C9. When the remote call succeeds and the body decodes to a scalar (\<^verbatim>\<open>null\<close>, a Boolean,
  a number or a string), \<^verbatim>\<open>news_search\<close> returns that scalar unchanged: the returned
  value is then no object.
\<close>

theorem scalar_body_returned_unchanged:
  assumes "news_search_request rt environ q size_arg location latitude longitude = Inr req"
    and "session_get send req = Inr r"
    and "json_result r = Inr body"
    and "body = JNull \<or> body = JBool b \<or> body = JInt i \<or> body = JFloat f \<or> body = JStr s"
  shows "news_search rt environ send q size_arg location latitude longitude = Inr body
       \<and> (\<forall>kvs. body \<noteq> JObj kvs)"
  using assms by (auto simp: news_search_def perform_def)

theorem scalar_body_returned_unchanged_witness:
  "news_search sample_runtime Map.empty
      (\<lambda>req. Inr \<lparr>status = 200, status_error_str = [], json_result = Inr (JStr ''ok'')\<rparr>)
      (PStr ''election'') (PInt 10) PNone PNone PNone
     = Inr (JStr ''ok'')"
proof -
  let ?r = "\<lparr>status = 200, status_error_str = [], json_result = Inr (JStr ''ok'')\<rparr>"
  have g: "\<And>req. session_get (\<lambda>req. Inr ?r) req = Inr ?r"
    by (simp add: session_get_def)
  have j: "json_result ?r = Inr (JStr ''ok'')"
    by simp
  have d: "JStr ''ok'' = JNull \<or> JStr ''ok'' = JBool True \<or> JStr ''ok'' = JInt 0
      \<or> JStr ''ok'' = JFloat NaN \<or> JStr ''ok'' = JStr ''ok''"
    by simp
  show ?thesis
    using scalar_body_returned_unchanged [OF sample_request g j d] by simp
qed

subsection \<open>HTTP error statuses\<close>

text \<open>
  C6 (amended). For every response whose status is 400 or higher, such as 401,
  \<^verbatim>\<open>news_search\<close> returns the failure object instead of the body, and no exception leaves
  the call.
\<close>

theorem http_error_status_is_failure:
  assumes "news_search_request rt environ q size_arg location latitude longitude = Inr req"
    and "send req = Inr r"
    and "400 \<le> status r"
  shows "news_search rt environ send q size_arg location latitude longitude
           = Inr (failed (status_error_str r))
       \<and> has_failed_shape (failed (status_error_str r))"
proof -
  have "raise_for_status req"
    using assms(1) by (rule news_search_request_cases) simp
  then show ?thesis
    using assms
    by (simp add: news_search_def perform_def session_get_def on_exception_def
        failed_has_failed_shape)
qed

theorem http_error_status_is_failure_witness:
  "(400::nat) \<le> 401
   \<and> news_search sample_runtime Map.empty
      (\<lambda>req. Inr \<lparr>status = 401, status_error_str = ''401, message=Unauthorized'',
                    json_result = Inr (JObj [(''message'', JStr ''Invalid API key'')])\<rparr>)
      (PStr ''election'') (PInt 10) PNone PNone PNone
     = Inr (failed ''401, message=Unauthorized'')"
proof -
  let ?r = "\<lparr>status = 401, status_error_str = ''401, message=Unauthorized'',
     json_result = Inr (JObj [(''message'', JStr ''Invalid API key'')])\<rparr>"
  have s: "\<And>req. (\<lambda>req. Inr ?r) req = (Inr ?r :: py_exc + response)"
    by simp
  have c: "400 \<le> status ?r"
    by simp
  show ?thesis
    using http_error_status_is_failure [OF sample_request s c] by simp
qed

text \<open>
  C6 as stated, for every status outside 200 to 299, fails: the client library raises
  for a status of 400 or higher only. A response with status 300 and an object as body
  is returned like a successful one.
\<close>

theorem status_300_counterexample:
  "news_search sample_runtime Map.empty
      (\<lambda>req. Inr \<lparr>status = 300, status_error_str = ''300, message=Multiple Choices'',
                    json_result = Inr (JObj [(''choices'', JArr [])])\<rparr>)
      (PStr ''election'') (PInt 10) PNone PNone PNone
     = Inr (JObj [(''choices'', JArr [])])
   \<and> \<not> has_failed_shape (JObj [(''choices'', JArr [])])"
  using sample_request
  by (simp add: news_search_def perform_def session_get_def has_failed_shape_def)

end
